theory Spec2Isabelle
  imports Main "HOL-Library.Word"
begin

unbundle bit_operations_syntax

section \<open>The chat data model of \<^verbatim>\<open>api/app/models/chat.py\<close>\<close>

text \<open>
  The module declares six pydantic classes and no function of its own: what it computes is
  what \<^verbatim>\<open>BaseModel\<close> does with the declared fields when a class is called with
  keyword arguments or fed a dictionary. The embedding therefore has two layers.
  \<^item> The declarations, one record or datatype per class, with the fields, their order and
    their defaults as in the module.
  \<^item> The field validators of pydantic that the declared types select (\<^verbatim>\<open>str\<close>,
    the enumeration, \<^verbatim>\<open>List[Message]\<close>, a nested model, \<^verbatim>\<open>datetime\<close>), in
    pydantic's default lax mode, since no class sets a configuration. A construction checks
    every field in declaration order, gathers the errors of all of them, and either returns
    the finished object or raises one \<^verbatim>\<open>ValidationError\<close> with the whole list:
    the result type is a sum, \<open>Inl\<close> carrying the error list.
  The two effects of construction, \<^verbatim>\<open>uuid4()\<close> and \<^verbatim>\<open>datetime.now()\<close>, read a
  \<open>world\<close> that is passed in and returned.
\<close>

subsection \<open>Declared types\<close>

text \<open>\<^verbatim>\<open>class MessageType(str, Enum): AI = "ai"; USER = "user"\<close>\<close>

datatype MessageType = AI | USER

fun MessageType_value :: "MessageType \<Rightarrow> string" where
  "MessageType_value AI = ''ai''"
| "MessageType_value USER = ''user''"


text \<open>
  \<^verbatim>\<open>class Message(BaseModel)\<close>. The field \<^verbatim>\<open>id\<close> is written \<open>id'\<close>, the
  plain name being the identity function of HOL.
\<close>

record Message =
  id' :: string
  type :: MessageType
  content :: string

text \<open>\<^verbatim>\<open>class Code(BaseModel)\<close> and \<^verbatim>\<open>class Response(Code)\<close>: the subclass is a
  record extension, so the selectors \<open>html\<close>, \<open>css\<close> and \<open>js\<close> read both.\<close>

record Code =
  html :: string
  css :: string
  js :: string

record Response = Code +
  explanation :: string

text \<open>
  An object that is an instance of \<^verbatim>\<open>Code\<close>: one of the class itself, or one of its
  subclass \<^verbatim>\<open>Response\<close>. \<open>shared\<close> reads the three fields that both have.
\<close>

datatype Code_instance = IsCode Code | IsResponse Response

fun shared :: "Code_instance \<Rightarrow> Code" where
  "shared (IsCode c) = c"
| "shared (IsResponse r) = \<lparr>html = html r, css = css r, js = js r\<rparr>"

text \<open>
  A \<^verbatim>\<open>datetime\<close> object. \<open>utcoffset\<close> is \<open>None\<close> for an object without time zone,
  which is what \<^verbatim>\<open>datetime.now()\<close> returns, and otherwise the offset of its zone from
  UTC in seconds. Python keeps every such object within the ranges of \<open>valid_datetime\<close>.
\<close>

record datetime =
  year :: nat
  month :: nat
  day :: nat
  hour :: nat
  minute :: nat
  second :: nat
  microsecond :: nat
  utcoffset :: "int option"

text \<open>
  \<^verbatim>\<open>class Chat(BaseModel)\<close>. The field \<^verbatim>\<open>code\<close> is declared \<^verbatim>\<open>Code\<close>, so it holds
  an instance of \<^verbatim>\<open>Code\<close>, which may be a \<^verbatim>\<open>Response\<close>.
\<close>

record Chat =
  userId :: string
  messages :: "Message list"
  name :: string
  code :: Code_instance
  createdAt :: datetime

subsection \<open>Python values and validation errors\<close>

text \<open>
  The values a caller can hand to a field: \<^verbatim>\<open>None\<close>, text, bytes, lists, dictionaries
  (a list of key and value pairs with distinct keys; a lookup takes the first), datetime
  objects, members of the enumeration and instances of the models that occur as field
  types, with those of the subclass \<^verbatim>\<open>Response\<close>. A \<open>string\<close> stands for a Python
  \<^verbatim>\<open>str\<close> by its UTF-8 bytes. Numbers are left out: no field of these models is
  numeric, and pydantic releases differ on how a \<^verbatim>\<open>str\<close> field treats them.
\<close>

datatype pyval =
    PNone
  | PStr string
  | PBytes string
  | PList "pyval list"
  | PDict "(string \<times> pyval) list"
  | PDatetime datetime
  | PMessageType MessageType
  | PMessage Message
  | PCode Code
  | PResponse Response

type_synonym kwargs = "(string \<times> pyval) list"

datatype loc_item = LField string | LIndex nat

datatype err_kind =
    Missing
  | StringType
  | StringUnicode
  | EnumError
  | ListType
  | ModelType
  | DatetimeType
  | DatetimeParsing

type_synonym error = "loc_item list \<times> err_kind"

type_synonym 'a result = "error list + 'a"

definition fail :: "err_kind \<Rightarrow> 'a result" where
  "fail k = Inl [([], k)]"

definition errors_of :: "'a result \<Rightarrow> error list" where
  "errors_of r = (case r of Inl es \<Rightarrow> es | Inr _ \<Rightarrow> [])"

definition at_loc :: "loc_item \<Rightarrow> 'a result \<Rightarrow> 'a result" where
  "at_loc l r = (case r of Inl es \<Rightarrow> Inl (map (\<lambda>(p, k). (l # p, k)) es) | Inr x \<Rightarrow> Inr x)"

text \<open>
  One declared field of a construction: the supplied value is validated and its errors
  are located under the field's name; a field that is not supplied takes what its
  declaration gives, a default value, the result of a default factory, or, for a field
  declared without either, the error that it is missing.
\<close>

definition required :: "string \<Rightarrow> 'a result" where
  "required n = Inl [([LField n], Missing)]"

definition get_field :: "kwargs \<Rightarrow> string \<Rightarrow> (pyval \<Rightarrow> 'a result) \<Rightarrow> 'a result \<Rightarrow> 'a result" where
  "get_field kw n validate dflt =
     (case map_of kw n of
        None \<Rightarrow> dflt
      | Some v \<Rightarrow> at_loc (LField n) (validate v))"

subsection \<open>Field validators\<close>

text \<open>
  Well-formed UTF-8 (RFC 3629), on the byte values: what \<^verbatim>\<open>bytes.decode()\<close> accepts.
\<close>

definition cont :: "nat \<Rightarrow> bool" where
  "cont b = (128 \<le> b \<and> b \<le> 191)"

fun valid_utf8 :: "nat list \<Rightarrow> bool" where
  "valid_utf8 [] = True"
| "valid_utf8 (a # bs) =
     (if a \<le> 127 then valid_utf8 bs
      else if 194 \<le> a \<and> a \<le> 223 then
        (case bs of b # r \<Rightarrow> cont b \<and> valid_utf8 r | _ \<Rightarrow> False)
      else if 224 \<le> a \<and> a \<le> 239 then
        (case bs of b # c # r \<Rightarrow>
           (if a = 224 then 160 \<le> b \<and> b \<le> 191
            else if a = 237 then 128 \<le> b \<and> b \<le> 159
            else cont b) \<and> cont c \<and> valid_utf8 r
         | _ \<Rightarrow> False)
      else if 240 \<le> a \<and> a \<le> 244 then
        (case bs of b # c # d # r \<Rightarrow>
           (if a = 240 then 144 \<le> b \<and> b \<le> 191
            else if a = 244 then 128 \<le> b \<and> b \<le> 143
            else cont b) \<and> cont c \<and> cont d \<and> valid_utf8 r
         | _ \<Rightarrow> False)
      else False)"

text \<open>
  A \<^verbatim>\<open>str\<close> field in lax mode: text is taken as it is, a member of the enumeration
  (a \<^verbatim>\<open>str\<close> subclass) gives its value, bytes are decoded as UTF-8, anything else is
  not a string.
\<close>

fun validate_str :: "pyval \<Rightarrow> string result" where
  "validate_str (PStr s) = Inr s"
| "validate_str (PMessageType e) = Inr (MessageType_value e)"
| "validate_str (PBytes b) =
     (if valid_utf8 (map of_char b) then Inr b else fail StringUnicode)"
| "validate_str _ = fail StringType"

text \<open>
  A \<^verbatim>\<open>MessageType\<close> field: a member is taken as it is; any other value is read as a
  \<^verbatim>\<open>str\<close> field reads it, so bytes are decoded, and the text is looked up among the
  values of the members. A value that gives no text, or a text that is no member's value,
  is not a member.
\<close>

definition lookup_MessageType :: "string \<Rightarrow> MessageType result" where
  "lookup_MessageType s =
     (if s = MessageType_value AI then Inr AI
      else if s = MessageType_value USER then Inr USER
      else fail EnumError)"

fun validate_MessageType :: "pyval \<Rightarrow> MessageType result" where
  "validate_MessageType (PMessageType e) = Inr e"
| "validate_MessageType v =
     (case validate_str v of
        Inr s \<Rightarrow> lookup_MessageType s
      | Inl es \<Rightarrow> fail EnumError)"

subsection \<open>\<^verbatim>\<open>Prompt\<close>, \<^verbatim>\<open>Code\<close> and \<^verbatim>\<open>Response\<close>\<close>


definition Code_construct :: "kwargs \<Rightarrow> Code result" where
  "Code_construct kw =
     (let r_html = get_field kw ''html'' validate_str (Inr '''');
          r_css = get_field kw ''css'' validate_str (Inr '''');
          r_js = get_field kw ''js'' validate_str (Inr '''')
      in case (r_html, r_css, r_js) of
           (Inr h, Inr c, Inr j) \<Rightarrow> Inr \<lparr>html = h, css = c, js = j\<rparr>
         | _ \<Rightarrow> Inl (errors_of r_html @ errors_of r_css @ errors_of r_js))"

definition Response_construct :: "kwargs \<Rightarrow> Response result" where
  "Response_construct kw =
     (let r_html = get_field kw ''html'' validate_str (Inr '''');
          r_css = get_field kw ''css'' validate_str (Inr '''');
          r_js = get_field kw ''js'' validate_str (Inr '''');
          r_explanation = get_field kw ''explanation'' validate_str (Inr '''')
      in case (r_html, r_css, r_js, r_explanation) of
           (Inr h, Inr c, Inr j, Inr e) \<Rightarrow> Inr \<lparr>html = h, css = c, js = j, explanation = e\<rparr>
         | _ \<Rightarrow> Inl (errors_of r_html @ errors_of r_css @ errors_of r_js
                     @ errors_of r_explanation))"

subsection \<open>The world: \<^verbatim>\<open>uuid4()\<close> and \<^verbatim>\<open>datetime.now()\<close>\<close>

text \<open>
  \<open>urandom w k\<close> is the 16 bytes that the \<open>k\<close>-th call of \<^verbatim>\<open>os.urandom(16)\<close>
  returns, read as a big-endian integer; \<open>drawn w\<close> counts the calls made so far;
  \<open>now w\<close> is the reading of \<^verbatim>\<open>datetime.now()\<close>.

  The world also fixes the two parts of the library's handling of datetimes that are taken
  as given here: \<open>read_other_datetime w s\<close> is what a \<^verbatim>\<open>datetime\<close> field makes of a
  text \<open>s\<close> that is not the ISO 8601 text of a datetime without time zone (the library
  reads many further spellings), and \<open>write_offset w o\<close> is the text that serialisation
  appends for a time zone of offset \<open>o\<close>. Every statement below holds for all worlds.
\<close>

record world =
  urandom :: "nat \<Rightarrow> 128 word"
  drawn :: nat
  now :: datetime
  read_other_datetime :: "string \<Rightarrow> datetime result"
  write_offset :: "int \<Rightarrow> string"

text \<open>
  \<^verbatim>\<open>uuid4()\<close> is \<^verbatim>\<open>UUID(bytes=os.urandom(16), version=4)\<close>, which sets the variant
  and the version in the integer:
  \<^verbatim>\<open>int &= ~(0xc000 << 48); int |= 0x8000 << 48; int &= ~(0xf000 << 64); int |= 4 << 76\<close>,
  and \<^verbatim>\<open>.hex\<close> is \<^verbatim>\<open>'%032x' % int\<close>.
\<close>

definition uuid4 :: "128 word \<Rightarrow> 128 word" where
  "uuid4 r =
     (((r AND NOT (push_bit 48 0xc000)) OR push_bit 48 0x8000)
        AND NOT (push_bit 64 0xf000)) OR push_bit 76 4"

definition hexdigit :: "nat \<Rightarrow> char" where
  "hexdigit n = ''0123456789abcdef'' ! n"

fun hex_digits :: "nat \<Rightarrow> nat \<Rightarrow> string" where
  "hex_digits 0 n = []"
| "hex_digits (Suc k) n = hex_digits k (n div 16) @ [hexdigit (n mod 16)]"

definition uuid4_hex :: "128 word \<Rightarrow> string" where
  "uuid4_hex r = hex_digits 32 (unat (uuid4 r))"

definition is_hex :: "string \<Rightarrow> bool" where
  "is_hex s = list_all (\<lambda>c. c \<in> set ''0123456789abcdef'') s"

text \<open>The default factory of \<^verbatim>\<open>Message.id\<close>, \<^verbatim>\<open>lambda: uuid4().hex\<close>: one draw.\<close>

definition fresh_id :: "world \<Rightarrow> string result \<times> world" where
  "fresh_id w = (Inr (uuid4_hex (urandom w (drawn w))), w\<lparr>drawn := Suc (drawn w)\<rparr>)"

subsection \<open>\<^verbatim>\<open>Message\<close>\<close>

text \<open>The field \<^verbatim>\<open>id\<close>: a supplied value is validated as a \<^verbatim>\<open>str\<close>, and the
  factory is called only when none is supplied.\<close>

definition id_field :: "world \<Rightarrow> kwargs \<Rightarrow> string result \<times> world" where
  "id_field w kw =
     (case map_of kw ''id'' of
        None \<Rightarrow> fresh_id w
      | Some v \<Rightarrow> (at_loc (LField ''id'') (validate_str v), w))"

definition Message_construct :: "world \<Rightarrow> kwargs \<Rightarrow> Message result \<times> world" where
  "Message_construct w kw =
     (let (r_id, w1) = id_field w kw;
          r_type = get_field kw ''type'' validate_MessageType (Inr USER);
          r_content = get_field kw ''content'' validate_str (Inr '''')
      in (case (r_id, r_type, r_content) of
            (Inr i, Inr t, Inr c) \<Rightarrow> Inr \<lparr>id' = i, type = t, content = c\<rparr>
          | _ \<Rightarrow> Inl (errors_of r_id @ errors_of r_type @ errors_of r_content),
          w1))"

subsection \<open>Validating a value as a model\<close>


text \<open>The call \<^verbatim>\<open>Code(**kw)\<close> as an object: what it makes is of the class itself.\<close>

definition Code_call :: "kwargs \<Rightarrow> Code_instance result" where
  "Code_call kw = (case Code_construct kw of Inr c \<Rightarrow> Inr (IsCode c) | Inl es \<Rightarrow> Inl es)"

fun Code_validate :: "pyval \<Rightarrow> Code_instance result" where
  "Code_validate (PCode c) = Inr (IsCode c)"
| "Code_validate (PResponse r) = Inr (IsResponse r)"
| "Code_validate (PDict kw) = Code_call kw"
| "Code_validate _ = fail ModelType"


fun Message_validate :: "world \<Rightarrow> pyval \<Rightarrow> Message result \<times> world" where
  "Message_validate w (PMessage m) = (Inr m, w)"
| "Message_validate w (PDict kw) = Message_construct w kw"
| "Message_validate w _ = (fail ModelType, w)"

text \<open>
  A \<^verbatim>\<open>List[Message]\<close> field: the items are validated in order, each under its index,
  and the list is the list of the results in the same order.
\<close>

fun validate_items :: "world \<Rightarrow> nat \<Rightarrow> pyval list \<Rightarrow> Message list result \<times> world" where
  "validate_items w i [] = (Inr [], w)"
| "validate_items w i (v # vs) =
     (let (r, w1) = Message_validate w v;
          (rs, w2) = validate_items w1 (Suc i) vs
      in (case (at_loc (LIndex i) r, rs) of
            (Inr m, Inr ms) \<Rightarrow> Inr (m # ms)
          | (r', _) \<Rightarrow> Inl (errors_of r' @ errors_of rs),
          w2))"

fun validate_Message_list :: "world \<Rightarrow> pyval \<Rightarrow> Message list result \<times> world" where
  "validate_Message_list w (PList vs) = validate_items w 0 vs"
| "validate_Message_list w _ = (fail ListType, w)"

subsection \<open>\<^verbatim>\<open>datetime\<close> values and their ISO 8601 text\<close>

definition is_leap :: "nat \<Rightarrow> bool" where
  "is_leap y = (y mod 4 = 0 \<and> (y mod 100 \<noteq> 0 \<or> y mod 400 = 0))"

definition days_in_month :: "nat \<Rightarrow> nat \<Rightarrow> nat" where
  "days_in_month y m =
     (if m = 2 then (if is_leap y then 29 else 28)
      else if m = 4 \<or> m = 6 \<or> m = 9 \<or> m = 11 then 30
      else 31)"

definition valid_datetime :: "datetime \<Rightarrow> bool" where
  "valid_datetime d =
     (1 \<le> year d \<and> year d \<le> 9999 \<and> 1 \<le> month d \<and> month d \<le> 12
      \<and> 1 \<le> day d \<and> day d \<le> days_in_month (year d) (month d)
      \<and> hour d < 24 \<and> minute d < 60 \<and> second d < 60 \<and> microsecond d < 1000000
      \<and> (case utcoffset d of None \<Rightarrow> True | Some off \<Rightarrow> - 86400 < off \<and> off < 86400))"

definition digit_char :: "nat \<Rightarrow> char" where
  "digit_char n = ''0123456789'' ! n"

fun dec_digits :: "nat \<Rightarrow> nat \<Rightarrow> string" where
  "dec_digits 0 n = []"
| "dec_digits (Suc k) n = dec_digits k (n div 10) @ [digit_char (n mod 10)]"


definition digit_val :: "char \<Rightarrow> nat option" where
  "digit_val c =
     (let v = of_char c :: nat in if 48 \<le> v \<and> v \<le> 57 then Some (v - 48) else None)"

fun read_digits :: "nat \<Rightarrow> string \<Rightarrow> nat option" where
  "read_digits acc [] = Some acc"
| "read_digits acc (c # cs) =
     (case digit_val c of None \<Rightarrow> None | Some v \<Rightarrow> read_digits (10 * acc + v) cs)"

definition read_nat :: "string \<Rightarrow> nat option" where
  "read_nat s = read_digits 0 s"

text \<open>
  The texts that are the ISO 8601 text of a datetime of the calendar without time zone,
  in the two shapes that \<open>isoformat\<close> writes, and the datetime each one stands for.
  \<open>None\<close> says only that the text is not of this kind; what a \<^verbatim>\<open>datetime\<close> field
  makes of such a text is the world's \<open>read_other_datetime\<close>.
\<close>

definition parse_datetime :: "string \<Rightarrow> datetime option" where
  "parse_datetime s =
     (if (length s = 19 \<or> length s = 26)
         \<and> s ! 4 = CHR ''-'' \<and> s ! 7 = CHR ''-'' \<and> s ! 10 = CHR ''T''
         \<and> s ! 13 = CHR '':'' \<and> s ! 16 = CHR '':''
         \<and> (length s = 19 \<or> s ! 19 = CHR ''.'')
      then
        (case (read_nat (take 4 s), read_nat (take 2 (drop 5 s)), read_nat (take 2 (drop 8 s)),
               read_nat (take 2 (drop 11 s)), read_nat (take 2 (drop 14 s)),
               read_nat (take 2 (drop 17 s)), read_nat (drop 20 s)) of
           (Some y, Some mo, Some d, Some h, Some mi, Some se, Some us) \<Rightarrow>
             (let dt = \<lparr>year = y, month = mo, day = d, hour = h, minute = mi,
                        second = se, microsecond = us, utcoffset = None\<rparr>
              in if valid_datetime dt then Some dt else None)
         | _ \<Rightarrow> None)
      else None)"

text \<open>
  A \<^verbatim>\<open>datetime\<close> field: a datetime object is taken as it is; text, bytes and a member
  of \<^verbatim>\<open>MessageType\<close> (a \<^verbatim>\<open>str\<close>) are read as text; any other value is not a
  datetime.
\<close>

definition read_datetime :: "world \<Rightarrow> string \<Rightarrow> datetime result" where
  "read_datetime w s =
     (case parse_datetime s of Some d \<Rightarrow> Inr d | None \<Rightarrow> read_other_datetime w s)"

fun validate_datetime :: "world \<Rightarrow> pyval \<Rightarrow> datetime result" where
  "validate_datetime w (PDatetime d) = Inr d"
| "validate_datetime w (PStr s) = read_datetime w s"
| "validate_datetime w (PBytes s) = read_datetime w s"
| "validate_datetime w (PMessageType e) = read_datetime w (MessageType_value e)"
| "validate_datetime w _ = fail DatetimeType"

subsection \<open>\<^verbatim>\<open>Chat\<close>\<close>

text \<open>
  \<^verbatim>\<open>userId: str\<close> has no default; \<^verbatim>\<open>messages: List[Message] = []\<close>;
  \<^verbatim>\<open>name: str = Field(default="New Chat")\<close>;
  \<^verbatim>\<open>code: Code = Field(default_factory=Code)\<close>, the factory being the call
  \<^verbatim>\<open>Code()\<close>; \<^verbatim>\<open>createdAt: datetime = Field(default_factory=datetime.now)\<close>.
\<close>

definition Chat_construct :: "world \<Rightarrow> kwargs \<Rightarrow> Chat result \<times> world" where
  "Chat_construct w kw =
     (let r_userId = get_field kw ''userId'' validate_str (required ''userId'');
          (r_messages, w1) = (case map_of kw ''messages'' of
                                None \<Rightarrow> (Inr [], w)
                              | Some v \<Rightarrow> (let (r, w') = validate_Message_list w v
                                           in (at_loc (LField ''messages'') r, w')));
          r_name = get_field kw ''name'' validate_str (Inr ''New Chat'');
          r_code = get_field kw ''code'' Code_validate (Code_call []);
          r_createdAt = get_field kw ''createdAt'' (validate_datetime w1) (Inr (now w1))
      in (case (r_userId, r_messages, r_name, r_code, r_createdAt) of
            (Inr u, Inr ms, Inr n, Inr c, Inr t) \<Rightarrow>
              Inr \<lparr>userId = u, messages = ms, name = n, code = c, createdAt = t\<rparr>
          | _ \<Rightarrow> Inl (errors_of r_userId @ errors_of r_messages @ errors_of r_name
                      @ errors_of r_code @ errors_of r_createdAt),
          w1))"


subsection \<open>Serialisation\<close>




definition Response_dump :: "Response \<Rightarrow> pyval" where
  "Response_dump r =
     PDict [(''html'', PStr (html r)), (''css'', PStr (css r)), (''js'', PStr (js r)),
            (''explanation'', PStr (explanation r))]"


subsection \<open>Notions used in the statements\<close>

text \<open>The text a keyword argument supplies for a field, the empty text when it is absent.\<close>

definition text_of :: "kwargs \<Rightarrow> string \<Rightarrow> string" where
  "text_of kw n = (case map_of kw n of Some (PStr s) \<Rightarrow> s | _ \<Rightarrow> '''')"



text \<open>The bits of a draw that \<open>uuid4\<close> keeps: all but the four version bits (76 to 79)
  and the two variant bits (62 and 63).\<close>

definition kept_bits :: "128 word \<Rightarrow> 128 word" where
  "kept_bits r = r AND NOT (push_bit 48 0xc000 OR push_bit 64 0xf000)"

text \<open>The hexadecimal digit of weight \<open>16 ^ j\<close> of a draw.\<close>

definition nibble :: "128 word \<Rightarrow> nat \<Rightarrow> nat" where
  "nibble r j = unat (drop_bit (4 * j) r) mod 16"

text \<open>A clock reading, two chats and three worlds for the examples: a world whose draws
  are all equal, one whose \<open>k\<close>-th draw is \<open>k\<close>, and one whose draws start at
  \<^verbatim>\<open>0123456789abcdeffedcba9876543210\<close>. In all three a text that is not the ISO 8601
  text of a datetime without time zone is refused, and a zone is written \<^verbatim>\<open>Z\<close>.\<close>

definition example_now :: datetime where
  "example_now =
     \<lparr>year = 2024, month = 2, day = 29, hour = 23, minute = 59, second = 58,
      microsecond = 120, utcoffset = None\<rparr>"



definition stuck_world :: world where
  "stuck_world =
     \<lparr>urandom = (\<lambda>k. 0), drawn = 0, now = example_now,
      read_other_datetime = (\<lambda>s. fail DatetimeParsing), write_offset = (\<lambda>off. ''Z'')\<rparr>"

definition counting_world :: world where
  "counting_world =
     \<lparr>urandom = (\<lambda>k. of_nat k), drawn = 0, now = example_now,
      read_other_datetime = (\<lambda>s. fail DatetimeParsing), write_offset = (\<lambda>off. ''Z'')\<rparr>"

definition sample_world :: world where
  "sample_world =
     \<lparr>urandom = (\<lambda>k. 0x0123456789abcdeffedcba9876543210 + of_nat k), drawn = 0,
      now = example_now,
      read_other_datetime = (\<lambda>s. fail DatetimeParsing), write_offset = (\<lambda>off. ''Z'')\<rparr>"

section \<open>Properties\<close>

subsection \<open>Auxiliary facts\<close>

lemma errors_of_simps [simp]: "errors_of (Inl es) = es" "errors_of (Inr x) = []"
  by (simp_all add: errors_of_def)

lemma at_loc_simps [simp]:
  "at_loc l (Inl es) = Inl (map (\<lambda>(p, k). (l # p, k)) es)" "at_loc l (Inr x) = Inr x"
  by (simp_all add: at_loc_def)

lemma Code_construct_Nil: "Code_construct [] = Inr \<lparr>html = '''', css = '''', js = ''''\<rparr>"
  by (simp add: Code_construct_def get_field_def)

lemma validate_items_instances: "validate_items w i (map PMessage ms) = (Inr ms, w)"
  by (induction ms arbitrary: i) simp_all

lemma get_text_field:
  "map_of kw n = None \<or> (\<exists>s. map_of kw n = Some (PStr s))
   \<Longrightarrow> get_field kw n validate_str (Inr '''') = Inr (text_of kw n)"
  by (auto simp add: get_field_def text_of_def)

lemma Code_call_Nil: "Code_call [] = Inr (IsCode \<lparr>html = '''', css = '''', js = ''''\<rparr>)"
  by (simp add: Code_call_def Code_construct_Nil)

subsection \<open>Construction of a \<^verbatim>\<open>Chat\<close>\<close>

text \<open>
  C1. \<^verbatim>\<open>Chat(userId="u1")\<close> succeeds in every world, and the result has no messages,
  the name \<^verbatim>\<open>New Chat\<close>, a code snippet whose three texts are empty, and as
  \<^verbatim>\<open>createdAt\<close> the reading of the clock at the construction. The world is unchanged:
  no identifier is drawn.
\<close>

theorem Chat_defaults:
  "Chat_construct w [(''userId'', PStr ''u1'')] =
     (Inr \<lparr>userId = ''u1'', messages = [], name = ''New Chat'',
           code = IsCode \<lparr>html = '''', css = '''', js = ''''\<rparr>, createdAt = now w\<rparr>, w)"
  by (simp add: Chat_construct_def get_field_def Code_call_Nil)

theorem Chat_defaults_witness:
  "Chat_construct stuck_world [(''userId'', PStr ''u1'')] =
     (Inr \<lparr>userId = ''u1'', messages = [], name = ''New Chat'',
           code = IsCode \<lparr>html = '''', css = '''', js = ''''\<rparr>, createdAt = example_now\<rparr>,
      stuck_world)"
  using Chat_defaults [of stuck_world] by (simp add: stuck_world_def)

text \<open>
  C2. A construction of a \<^verbatim>\<open>Chat\<close> whose arguments have no \<^verbatim>\<open>userId\<close> fails,
  whatever the other arguments are: the result is an error list, not a \<^verbatim>\<open>Chat\<close>,
  and the list holds the error that the field \<^verbatim>\<open>userId\<close> is missing.
\<close>

theorem Chat_userId_missing:
  assumes "map_of kw ''userId'' = None"
  shows "\<exists>es. fst (Chat_construct w kw) = Inl es \<and> ([LField ''userId''], Missing) \<in> set es"
  using assms
  by (simp add: Chat_construct_def get_field_def required_def Let_def
      split: prod.splits sum.splits)

theorem Chat_userId_missing_witness:
  "map_of [(''name'', PStr ''n'')] ''userId'' = None
   \<and> (\<exists>es. fst (Chat_construct stuck_world [(''name'', PStr ''n'')]) = Inl es
           \<and> ([LField ''userId''], Missing) \<in> set es)"
  using Chat_userId_missing [of "[(''name'', PStr ''n'')]" stuck_world] by simp

text \<open>
  C9. A construction of a \<^verbatim>\<open>Chat\<close> with \<^verbatim>\<open>code=None\<close> fails, whatever the other
  arguments are: \<^verbatim>\<open>None\<close> is neither a dictionary nor a \<^verbatim>\<open>Code\<close>, and the error
  list holds that error for the field \<^verbatim>\<open>code\<close>.
\<close>

theorem Chat_code_None:
  assumes "map_of kw ''code'' = Some PNone"
  shows "\<exists>es. fst (Chat_construct w kw) = Inl es \<and> ([LField ''code''], ModelType) \<in> set es"
  using assms
  by (simp add: Chat_construct_def get_field_def fail_def Let_def
      split: prod.splits sum.splits)

theorem Chat_code_None_witness:
  "map_of [(''userId'', PStr ''u1''), (''code'', PNone)] ''code'' = Some PNone
   \<and> (\<exists>es. fst (Chat_construct stuck_world [(''userId'', PStr ''u1''), (''code'', PNone)])
             = Inl es
           \<and> ([LField ''code''], ModelType) \<in> set es)"
  using Chat_code_None [of "[(''userId'', PStr ''u1''), (''code'', PNone)]" stuck_world]
  by simp

text \<open>
  C10. \<^verbatim>\<open>Chat\<close> takes a \<^verbatim>\<open>messages\<close> argument beside \<^verbatim>\<open>userId\<close>,
  \<^verbatim>\<open>name\<close>, \<^verbatim>\<open>code\<close> and \<^verbatim>\<open>createdAt\<close>. With a list of \<^verbatim>\<open>Message\<close>
  objects the construction succeeds and the messages of the chat are that list in the
  same order, with the other fields defaulted or supplied; and whenever a construction
  given such a list returns a chat, its messages are the list.
\<close>

theorem Chat_messages_supplied:
  "Chat_construct w [(''userId'', PStr u), (''messages'', PList (map PMessage ms))] =
     (Inr \<lparr>userId = u, messages = ms, name = ''New Chat'',
           code = IsCode \<lparr>html = '''', css = '''', js = ''''\<rparr>, createdAt = now w\<rparr>, w)
   \<and> Chat_construct w [(''userId'', PStr u), (''messages'', PList (map PMessage ms)),
                        (''name'', PStr n), (''code'', PCode c), (''createdAt'', PDatetime t)] =
     (Inr \<lparr>userId = u, messages = ms, name = n, code = IsCode c, createdAt = t\<rparr>, w)
   \<and> (map_of kw ''messages'' = Some (PList (map PMessage ms))
        \<longrightarrow> fst (Chat_construct w kw) = Inr ch \<longrightarrow> messages ch = ms)"
proof (intro conjI impI)
  show "Chat_construct w [(''userId'', PStr u), (''messages'', PList (map PMessage ms))] =
     (Inr \<lparr>userId = u, messages = ms, name = ''New Chat'',
           code = IsCode \<lparr>html = '''', css = '''', js = ''''\<rparr>, createdAt = now w\<rparr>, w)"
    by (simp add: Chat_construct_def get_field_def Code_call_Nil validate_items_instances)
  show "Chat_construct w [(''userId'', PStr u), (''messages'', PList (map PMessage ms)),
                        (''name'', PStr n), (''code'', PCode c), (''createdAt'', PDatetime t)] =
     (Inr \<lparr>userId = u, messages = ms, name = n, code = IsCode c, createdAt = t\<rparr>, w)"
    by (simp add: Chat_construct_def get_field_def validate_items_instances)
next
  assume m: "map_of kw ''messages'' = Some (PList (map PMessage ms))"
    and r: "fst (Chat_construct w kw) = Inr ch"
  from r show "messages ch = ms"
    by (auto simp add: Chat_construct_def m validate_items_instances Let_def
        split: sum.splits)
qed

theorem Chat_messages_supplied_witness:
  "fst (Chat_construct stuck_world
          [(''messages'', PList [PMessage \<lparr>id' = ''b'', type = AI, content = ''hi''\<rparr>,
                                PMessage \<lparr>id' = ''a'', type = USER, content = ''hello''\<rparr>]),
           (''userId'', PStr ''u1'')])
     = Inr \<lparr>userId = ''u1'',
            messages = [\<lparr>id' = ''b'', type = AI, content = ''hi''\<rparr>,
                        \<lparr>id' = ''a'', type = USER, content = ''hello''\<rparr>],
            name = ''New Chat'', code = IsCode \<lparr>html = '''', css = '''', js = ''''\<rparr>,
            createdAt = example_now\<rparr>
   \<and> messages \<lparr>userId = ''u1'',
            messages = [\<lparr>id' = ''b'', type = AI, content = ''hi''\<rparr>,
                        \<lparr>id' = ''a'', type = USER, content = ''hello''\<rparr>],
            name = ''New Chat'', code = IsCode \<lparr>html = '''', css = '''', js = ''''\<rparr>,
            createdAt = example_now\<rparr>
     = [\<lparr>id' = ''b'', type = AI, content = ''hi''\<rparr>,
        \<lparr>id' = ''a'', type = USER, content = ''hello''\<rparr>]"
  using Chat_messages_supplied
    [of stuck_world "''u1''"
        "[\<lparr>id' = ''b'', type = AI, content = ''hi''\<rparr>,
          \<lparr>id' = ''a'', type = USER, content = ''hello''\<rparr>]"
        "''n''" "\<lparr>html = '''', css = '''', js = ''''\<rparr>" example_now
        "[(''messages'', PList [PMessage \<lparr>id' = ''b'', type = AI, content = ''hi''\<rparr>,
                                PMessage \<lparr>id' = ''a'', type = USER, content = ''hello''\<rparr>]),
          (''userId'', PStr ''u1'')]"]
  by (simp add: Chat_construct_def get_field_def Code_call_Nil stuck_world_def)

subsection \<open>The enumeration, \<^verbatim>\<open>Code\<close> and \<^verbatim>\<open>Response\<close>\<close>

text \<open>
  C4. \<^verbatim>\<open>MessageType\<close> has exactly the two members \<^verbatim>\<open>AI\<close> and \<^verbatim>\<open>USER\<close>, with
  the values \<^verbatim>\<open>"ai"\<close> and \<^verbatim>\<open>"user"\<close>. Reading the text \<^verbatim>\<open>"ai"\<close> gives
  \<^verbatim>\<open>AI\<close>, reading \<^verbatim>\<open>"user"\<close> gives \<^verbatim>\<open>USER\<close>, and reading any other text
  fails with the error of the enumeration.
\<close>

theorem MessageType_closed:
  "(e = AI \<or> e = USER)
   \<and> MessageType_value AI = ''ai'' \<and> MessageType_value USER = ''user''
   \<and> validate_MessageType (PStr ''ai'') = Inr AI
   \<and> validate_MessageType (PStr ''user'') = Inr USER
   \<and> (s \<noteq> ''ai'' \<longrightarrow> s \<noteq> ''user''
        \<longrightarrow> validate_MessageType (PStr s) = Inl [([], EnumError)])"
  by (cases e) (simp_all add: lookup_MessageType_def fail_def)

theorem MessageType_closed_witness:
  "''bot'' \<noteq> ''ai'' \<and> ''bot'' \<noteq> ''user''
   \<and> validate_MessageType (PStr ''bot'') = Inl [([], EnumError)]
   \<and> validate_MessageType (PStr ''ai'') = Inr AI"
  using MessageType_closed [of AI "''bot''"] by simp

text \<open>
  C6. When each of \<^verbatim>\<open>html\<close>, \<^verbatim>\<open>css\<close>, \<^verbatim>\<open>js\<close> and \<^verbatim>\<open>explanation\<close> is
  either absent or text, the constructions of \<^verbatim>\<open>Code\<close> and of \<^verbatim>\<open>Response\<close>
  succeed, with each field the supplied text, or the empty text when absent.
  \<^verbatim>\<open>Response(explanation="done")\<close> has three empty code texts and the explanation
  \<^verbatim>\<open>done\<close>. A response read through the fields it shares with \<^verbatim>\<open>Code\<close> is a
  code snippet with the same three texts, and the serialised response validates as that
  \<^verbatim>\<open>Code\<close>. A \<^verbatim>\<open>Response\<close> object is accepted where a \<^verbatim>\<open>Code\<close> is expected,
  and its shared fields are those three texts.
\<close>

theorem Code_Response_construct:
  assumes "\<forall>n \<in> {''html'', ''css'', ''js'', ''explanation''}.
             map_of kw n = None \<or> (\<exists>s. map_of kw n = Some (PStr s))"
  shows "Code_construct kw =
           Inr \<lparr>html = text_of kw ''html'', css = text_of kw ''css'', js = text_of kw ''js''\<rparr>
       \<and> Response_construct kw =
           Inr \<lparr>html = text_of kw ''html'', css = text_of kw ''css'', js = text_of kw ''js'',
                explanation = text_of kw ''explanation''\<rparr>
       \<and> Response_construct [(''explanation'', PStr ''done'')] =
           Inr \<lparr>html = '''', css = '''', js = '''', explanation = ''done''\<rparr>
       \<and> Code.truncate r = \<lparr>html = html r, css = css r, js = js r\<rparr>
       \<and> Code_validate (Response_dump r) = Inr (IsCode (Code.truncate r))
       \<and> Code_validate (PResponse r) = Inr (IsResponse r)
       \<and> shared (IsResponse r) = Code.truncate r"
proof -
  have f: "get_field kw ''html'' validate_str (Inr '''') = Inr (text_of kw ''html'')"
    "get_field kw ''css'' validate_str (Inr '''') = Inr (text_of kw ''css'')"
    "get_field kw ''js'' validate_str (Inr '''') = Inr (text_of kw ''js'')"
    "get_field kw ''explanation'' validate_str (Inr '''') = Inr (text_of kw ''explanation'')"
    using assms by (simp_all add: get_text_field)
  have "Code_construct kw =
           Inr \<lparr>html = text_of kw ''html'', css = text_of kw ''css'', js = text_of kw ''js''\<rparr>"
    by (simp add: Code_construct_def f)
  moreover have "Response_construct kw =
           Inr \<lparr>html = text_of kw ''html'', css = text_of kw ''css'', js = text_of kw ''js'',
                explanation = text_of kw ''explanation''\<rparr>"
    by (simp add: Response_construct_def f)
  moreover have "Response_construct [(''explanation'', PStr ''done'')] =
           Inr \<lparr>html = '''', css = '''', js = '''', explanation = ''done''\<rparr>"
    by (simp add: Response_construct_def get_field_def)
  moreover have "Code.truncate r = \<lparr>html = html r, css = css r, js = js r\<rparr>"
    by (simp add: Code.truncate_def)
  moreover have "Code_validate (Response_dump r) = Inr (IsCode (Code.truncate r))"
    by (simp add: Response_dump_def Code_call_def Code_construct_def get_field_def
        Code.truncate_def)
  moreover have "shared (IsResponse r) = Code.truncate r"
    by (simp add: Code.truncate_def)
  ultimately show ?thesis by simp
qed

theorem Code_Response_construct_witness:
  "Code_construct [(''css'', PStr ''p {}'')] = Inr \<lparr>html = '''', css = ''p {}'', js = ''''\<rparr>
   \<and> Response_construct [(''css'', PStr ''p {}'')] =
        Inr \<lparr>html = '''', css = ''p {}'', js = '''', explanation = ''''\<rparr>"
  using Code_Response_construct [of "[(''css'', PStr ''p {}'')]"]
  by (simp add: text_of_def)

subsection \<open>Identifiers of messages\<close>

lemma length_hex_digits [simp]: "length (hex_digits k n) = k"
  by (induction k arbitrary: n) simp_all

lemma hexdigit_in_alphabet: "n < 16 \<Longrightarrow> hexdigit n \<in> set ''0123456789abcdef''"
  unfolding hexdigit_def by (rule nth_mem) simp

lemma is_hex_hex_digits: "is_hex (hex_digits k n)"
proof (induction k arbitrary: n)
  case 0
  show ?case by (simp add: is_hex_def)
next
  case (Suc k)
  have "hexdigit (n mod 16) \<in> set ''0123456789abcdef''"
    by (rule hexdigit_in_alphabet) simp
  with Suc [of "n div 16"] show ?case
    by (simp add: is_hex_def)
qed

lemma hex_digits_numeral:
  "hex_digits (numeral k) n = hex_digits (pred_numeral k) (n div 16) @ [hexdigit (n mod 16)]"
  using hex_digits.simps(2) [of "pred_numeral k" n] by (simp only: numeral_eq_Suc)

lemma hexdigit_inj: "a < 16 \<Longrightarrow> b < 16 \<Longrightarrow> hexdigit a = hexdigit b \<Longrightarrow> a = b"
proof -
  assume a: "a < 16" and b: "b < 16" and e: "hexdigit a = hexdigit b"
  have d: "distinct ''0123456789abcdef''" by simp
  have l: "length ''0123456789abcdef'' = 16" by simp
  from e have "''0123456789abcdef'' ! a = ''0123456789abcdef'' ! b"
    by (simp only: hexdigit_def)
  with d a b l show "a = b"
    by (simp only: nth_eq_iff_index_eq)
qed

text \<open>Two numbers below \<open>16 ^ k\<close> with the same \<open>k\<close> hexadecimal digits are equal.\<close>

lemma hex_digits_inj:
  "n < 16 ^ k \<Longrightarrow> m < 16 ^ k \<Longrightarrow> hex_digits k n = hex_digits k m \<Longrightarrow> n = m"
proof (induction k arbitrary: n m)
  case 0
  then show ?case by simp
next
  case (Suc k)
  from Suc.prems(3) have e1: "hex_digits k (n div 16) = hex_digits k (m div 16)"
    and e2: "hexdigit (n mod 16) = hexdigit (m mod 16)"
    by simp_all
  have "n div 16 < 16 ^ k" "m div 16 < 16 ^ k"
    using Suc.prems(1,2) by (simp_all add: less_mult_imp_div_less mult.commute)
  then have q: "n div 16 = m div 16" using e1 by (intro Suc.IH)
  have r: "n mod 16 = m mod 16"
    by (rule hexdigit_inj [OF _ _ e2]) simp_all
  from q r show ?case
    by (metis div_mult_mod_eq)
qed

lemma uuid4_hex_inj: "uuid4_hex r = uuid4_hex r' \<longleftrightarrow> uuid4 r = uuid4 r'"
proof
  assume e: "uuid4_hex r = uuid4_hex r'"
  have b: "unat (uuid4 r) < 16 ^ 32" "unat (uuid4 r') < 16 ^ 32"
    using unsigned_less [of "uuid4 r", where ?'a = nat]
      unsigned_less [of "uuid4 r'", where ?'a = nat]
    by simp_all
  from e have "unat (uuid4 r) = unat (uuid4 r')"
    unfolding uuid4_hex_def by (rule hex_digits_inj [OF b])
  then show "uuid4 r = uuid4 r'" by (simp add: word_unat_eq_iff)
next
  assume "uuid4 r = uuid4 r'"
  then show "uuid4_hex r = uuid4_hex r'" by (simp add: uuid4_hex_def)
qed

lemma masked_or:
  fixes r a b c d :: "'a::len word"
  assumes "b AND c = 0" "b AND NOT a = 0" "d AND NOT c = 0"
  shows "(((r AND NOT a) OR b) AND NOT c) OR d = (r AND NOT (a OR c)) OR (b OR d)"
    and "((r AND NOT (a OR c)) OR (b OR d)) AND NOT (a OR c) = r AND NOT (a OR c)"
  using assms by (auto simp add: bit_eq_iff bit_simps)

lemma uuid4_split: "uuid4 r = kept_bits r OR (push_bit 48 0x8000 OR push_bit 76 4)"
  unfolding uuid4_def kept_bits_def by (rule masked_or(1)) simp_all

lemma kept_bits_uuid4: "kept_bits (uuid4 r) = kept_bits r"
  unfolding uuid4_split unfolding kept_bits_def by (rule masked_or(2)) simp_all

text \<open>Two draws give the same UUID exactly when they agree on the bits that are kept.\<close>

lemma uuid4_kept: "uuid4 r = uuid4 r' \<longleftrightarrow> kept_bits r = kept_bits r'"
  by (metis kept_bits_uuid4 uuid4_split)

lemma hex_digits_nth:
  "i < k \<Longrightarrow> hex_digits k n ! i = hexdigit (n div 16 ^ (k - 1 - i) mod 16)"
proof (induction k arbitrary: n)
  case 0
  then show ?case by simp
next
  case (Suc k)
  show ?case
  proof (cases "i < k")
    case True
    then have e: "Suc k - 1 - i = Suc (k - 1 - i)" by simp
    have "hex_digits (Suc k) n ! i = hex_digits k (n div 16) ! i"
      using True by (simp add: nth_append)
    also have "\<dots> = hexdigit (n div 16 div 16 ^ (k - 1 - i) mod 16)"
      using True by (rule Suc.IH)
    also have "n div 16 div 16 ^ (k - 1 - i) = n div 16 ^ (Suc k - 1 - i)"
      by (simp only: e power_Suc div_mult2_eq)
    finally show ?thesis .
  next
    case False
    with Suc.prems have "i = k" by simp
    then show ?thesis by (simp add: nth_append)
  qed
qed

lemma mod16_bits:
  "(m :: nat) mod 16 = of_bool (bit m 0) + 2 * of_bool (bit m 1) + 4 * of_bool (bit m 2)
                       + 8 * of_bool (bit m 3)"
proof -
  have s: "{0..<4::nat} = {0, 1, 2, 3}" by auto
  have "m mod 16 = take_bit 4 m"
    by (simp add: take_bit_eq_mod)
  also have "\<dots> = (\<Sum>k = 0..<4. push_bit k (of_bool (bit m k)))"
    by (rule take_bit_sum)
  also have "\<dots> = of_bool (bit m 0) + 2 * of_bool (bit m 1) + 4 * of_bool (bit m 2)
                       + 8 * of_bool (bit m 3)"
    unfolding s by (simp add: push_bit_eq_mult)
  finally show ?thesis .
qed

lemma nibble_bits:
  "nibble x j = of_bool (bit x (4 * j)) + 2 * of_bool (bit x (4 * j + 1))
                + 4 * of_bool (bit x (4 * j + 2)) + 8 * of_bool (bit x (4 * j + 3))"
  unfolding nibble_def mod16_bits
  by (simp add: bit_unsigned_iff bit_drop_bit_eq add.commute)

lemma nibble_div: "unat x div 16 ^ j mod 16 = nibble x j"
proof -
  have p: "(16 :: nat) ^ j = 2 ^ (4 * j)"
    by (simp add: power_mult)
  have "nibble x j = drop_bit (4 * j) (unat x) mod 16"
    by (simp only: nibble_def unat_drop_bit_eq)
  then show ?thesis
    by (simp only: drop_bit_eq_div p)
qed

lemma bit_variant_mask: "bit (push_bit 48 0xc000 :: 128 word) m \<longleftrightarrow> m = 62 \<or> m = 63"
proof -
  have "push_bit 48 0xc000 = (push_bit 62 (mask 2) :: 128 word)"
    by (simp add: mask_eq_exp_minus_1)
  moreover have "bit (push_bit 62 (mask 2) :: 128 word) m \<longleftrightarrow> m = 62 \<or> m = 63"
    by (auto simp only: bit_push_bit_iff bit_mask_iff possible_bit_word len_bit0 len_num1
        One_nat_def)
  ultimately show ?thesis by (simp only:)
qed

lemma bit_variant: "bit (push_bit 48 0x8000 :: 128 word) m \<longleftrightarrow> m = 63"
proof -
  have "push_bit 48 0x8000 = (push_bit 63 (mask 1) :: 128 word)"
    by (simp add: mask_eq_exp_minus_1)
  moreover have "bit (push_bit 63 (mask 1) :: 128 word) m \<longleftrightarrow> m = 63"
    by (auto simp only: bit_push_bit_iff bit_mask_iff possible_bit_word len_bit0 len_num1
        One_nat_def)
  ultimately show ?thesis by (simp only:)
qed

lemma bit_version_mask: "bit (push_bit 64 0xf000 :: 128 word) m \<longleftrightarrow> 76 \<le> m \<and> m < 80"
proof -
  have "push_bit 64 0xf000 = (push_bit 76 (mask 4) :: 128 word)"
    by (simp add: mask_eq_exp_minus_1)
  moreover have "bit (push_bit 76 (mask 4) :: 128 word) m \<longleftrightarrow> 76 \<le> m \<and> m < 80"
    by (auto simp only: bit_push_bit_iff bit_mask_iff possible_bit_word len_bit0 len_num1
        One_nat_def)
  ultimately show ?thesis by (simp only:)
qed

lemma bit_version: "bit (push_bit 76 4 :: 128 word) m \<longleftrightarrow> m = 78"
proof -
  have "push_bit 76 4 = (push_bit 78 (mask 1) :: 128 word)"
    by (simp add: mask_eq_exp_minus_1)
  moreover have "bit (push_bit 78 (mask 1) :: 128 word) m \<longleftrightarrow> m = 78"
    by (auto simp only: bit_push_bit_iff bit_mask_iff possible_bit_word len_bit0 len_num1
        One_nat_def)
  ultimately show ?thesis by (simp only:)
qed

lemma uuid4_bit:
  "bit (uuid4 r) m \<longleftrightarrow>
     (if m = 62 \<or> m = 76 \<or> m = 77 \<or> m = 79 then False
      else if m = 63 \<or> m = 78 then True
      else bit r m)"
proof -
  have "bit (uuid4 r) m \<longleftrightarrow>
          ((bit r m \<and> \<not> (m = 62 \<or> m = 63) \<or> m = 63) \<and> \<not> (76 \<le> m \<and> m < 80) \<or> m = 78)
          \<and> m < 128"
    using bit_imp_le_length [of r m]
    by (auto simp only: uuid4_def bit_or_iff bit_and_iff bit_not_iff bit_variant_mask bit_variant
        bit_version_mask bit_version
        possible_bit_word len_bit0 len_num1 One_nat_def)
  then show ?thesis
    using bit_imp_le_length [of r m] by auto
qed

lemma nibble_uuid4:
  "nibble (uuid4 r) j =
     (if j = 19 then 4 else if j = 15 then 8 + nibble r 15 mod 4 else nibble r j)"
proof -
  have a: "nibble r 15 mod 4 = of_bool (bit r 60) + 2 * of_bool (bit r 61)"
    unfolding nibble_bits by (simp add: of_bool_def) 
  have n: "4 * j + n = 62 \<longleftrightarrow> j = 15 \<and> n = 2" "4 * j + n = 63 \<longleftrightarrow> j = 15 \<and> n = 3"
    "4 * j + n = 76 \<longleftrightarrow> j = 19 \<and> n = 0" "4 * j + n = 77 \<longleftrightarrow> j = 19 \<and> n = 1"
    "4 * j + n = 78 \<longleftrightarrow> j = 19 \<and> n = 2" "4 * j + n = 79 \<longleftrightarrow> j = 19 \<and> n = 3"
    if "n < 4" for n
    using that by presburger+
  show ?thesis
    unfolding nibble_bits [of "uuid4 r"] uuid4_bit a
    using n [of 0] n [of 1] n [of 2] n [of 3]
    by (simp add: nibble_bits)
qed

lemma uuid4_hex_nth:
  assumes "i < 32"
  shows "uuid4_hex r ! i =
           hexdigit (if i = 12 then 4 else if i = 16 then 8 + nibble r 15 mod 4
                     else nibble r (31 - i))"
proof -
  have "uuid4_hex r ! i = hexdigit (nibble (uuid4 r) (31 - i))"
    using assms by (simp add: uuid4_hex_def hex_digits_nth nibble_div)
  moreover have "31 - i = 19 \<longleftrightarrow> i = 12" "31 - i = 15 \<longleftrightarrow> i = 16"
    using assms by auto
  ultimately show ?thesis
    by (simp add: nibble_uuid4)
qed

lemma uuid4_hex_sample:
  "uuid4_hex 0x0123456789abcdeffedcba9876543210 = ''0123456789ab4defbedcba9876543210''"
  by (simp add: uuid4_hex_def uuid4_def hex_digits_numeral hexdigit_def)

lemma uuid4_hex_zero: "uuid4_hex 0 = ''00000000000040008000000000000000''"
  by (simp add: uuid4_hex_def uuid4_def hex_digits_numeral hexdigit_def)

lemma uuid4_hex_one: "uuid4_hex 1 = ''00000000000040008000000000000001''"
  by (simp add: uuid4_hex_def uuid4_def hex_digits_numeral hexdigit_def)

lemma Message_construct_no_id:
  "map_of kw ''id'' = None \<Longrightarrow> Message_construct w kw = (Inr m, w')
   \<Longrightarrow> id' m = uuid4_hex (urandom w (drawn w)) \<and> w' = w\<lparr>drawn := Suc (drawn w)\<rparr>"
  by (auto simp add: Message_construct_def id_field_def fresh_id_def Let_def split: sum.splits)

text \<open>
  C3. \<^verbatim>\<open>Message()\<close> succeeds in every world: the type is \<^verbatim>\<open>USER\<close>, the content
  is the empty text, and the identifier is made from the next draw of the world, which the
  construction uses up, so that the next construction takes the next draw. The identifier
  has 32 characters, each one of \<^verbatim>\<open>0123456789abcdef\<close>, so it is not empty. It is the
  draw written in hexadecimal, digit by digit, but for two places: the character at
  index 12 is \<^verbatim>\<open>4\<close>, the version, and the character at index 16 is one of
  \<^verbatim>\<open>89ab\<close>, the variant above the two low bits of the draw's digit. Hence two draws
  give the same identifier exactly when they agree on the 122 bits that are kept.
\<close>

theorem Message_defaults:
  "Message_construct w [] =
     (Inr \<lparr>id' = uuid4_hex (urandom w (drawn w)), type = USER, content = ''''\<rparr>,
      w\<lparr>drawn := Suc (drawn w)\<rparr>)
   \<and> length (uuid4_hex r) = 32 \<and> is_hex (uuid4_hex r) \<and> uuid4_hex r \<noteq> ''''
   \<and> (\<forall>i < 32. uuid4_hex r ! i =
          hexdigit (if i = 12 then 4 else if i = 16 then 8 + nibble r 15 mod 4
                    else nibble r (31 - i)))
   \<and> (uuid4_hex r = uuid4_hex r' \<longleftrightarrow> kept_bits r = kept_bits r')"
proof -
  have l: "length (uuid4_hex r) = 32" by (simp add: uuid4_hex_def)
  then have n: "uuid4_hex r \<noteq> ''''" by auto
  have h: "is_hex (uuid4_hex r)"
    by (simp add: uuid4_hex_def is_hex_hex_digits)
  have c: "Message_construct w [] =
     (Inr \<lparr>id' = uuid4_hex (urandom w (drawn w)), type = USER, content = ''''\<rparr>,
      w\<lparr>drawn := Suc (drawn w)\<rparr>)"
    by (simp add: Message_construct_def id_field_def fresh_id_def get_field_def)
  have d: "\<forall>i < 32. uuid4_hex r ! i =
          hexdigit (if i = 12 then 4 else if i = 16 then 8 + nibble r 15 mod 4
                    else nibble r (31 - i))"
    by (intro allI impI) (rule uuid4_hex_nth)
  have e: "uuid4_hex r = uuid4_hex r' \<longleftrightarrow> kept_bits r = kept_bits r'"
    by (simp only: uuid4_hex_inj uuid4_kept)
  from c l h n d e show ?thesis by (intro conjI)
qed

theorem Message_defaults_witness:
  "Message_construct sample_world [] =
     (Inr \<lparr>id' = ''0123456789ab4defbedcba9876543210'', type = USER, content = ''''\<rparr>,
      sample_world\<lparr>drawn := 1\<rparr>)
   \<and> length ''0123456789ab4defbedcba9876543210'' = 32
   \<and> is_hex ''0123456789ab4defbedcba9876543210''
   \<and> (12 :: nat) < 32 \<and> ''0123456789ab4defbedcba9876543210'' ! 12 = CHR ''4''
   \<and> ''0123456789ab4defbedcba9876543210'' ! 16 = CHR ''b''
   \<and> ''0123456789ab4defbedcba9876543210'' ! 31
       = hexdigit (nibble 0x0123456789abcdeffedcba9876543210 0)"
proof -
  have u: "urandom sample_world (drawn sample_world) = 0x0123456789abcdeffedcba9876543210"
    and w: "sample_world\<lparr>drawn := Suc (drawn sample_world)\<rparr> = sample_world\<lparr>drawn := 1\<rparr>"
    by (simp_all add: sample_world_def)
  have k: "nibble 0x0123456789abcdeffedcba9876543210 0 = 0"
    by (simp add: nibble_def)
  from Message_defaults [of sample_world "0x0123456789abcdeffedcba9876543210"]
  show ?thesis
    by (simp add: u w uuid4_hex_sample k hexdigit_def)
qed

text \<open>
  C8, as stated, fails: nothing in the construction compares an identifier with an
  earlier one, so when two successive draws are equal, the two messages have the same
  identifier. In \<open>stuck_world\<close> every draw is 0.
\<close>

theorem successive_ids_counterexample:
  "fst (Message_construct stuck_world []) =
     Inr \<lparr>id' = ''00000000000040008000000000000000'', type = USER, content = ''''\<rparr>
   \<and> fst (Message_construct (snd (Message_construct stuck_world [])) []) =
     Inr \<lparr>id' = ''00000000000040008000000000000000'', type = USER, content = ''''\<rparr>"
  by (simp add: Message_construct_def id_field_def fresh_id_def get_field_def stuck_world_def uuid4_hex_zero)

text \<open>
  C8, amended. Two successive constructions of a \<^verbatim>\<open>Message\<close> without identifier that
  both succeed give different identifiers exactly when the two draws they use differ in
  one of the 122 bits that \<open>uuid4\<close> keeps.
\<close>

theorem successive_ids_distinct:
  assumes "map_of kw1 ''id'' = None" and "map_of kw2 ''id'' = None"
    and "Message_construct w kw1 = (Inr m1, w1)"
    and "Message_construct w1 kw2 = (Inr m2, w2)"
  shows "id' m1 \<noteq> id' m2
         \<longleftrightarrow> kept_bits (urandom w (drawn w)) \<noteq> kept_bits (urandom w (Suc (drawn w)))"
proof -
  from assms(1,3) have a: "id' m1 = uuid4_hex (urandom w (drawn w))"
    and w1: "w1 = w\<lparr>drawn := Suc (drawn w)\<rparr>"
    by (simp_all add: Message_construct_no_id)
  from assms(2,4) have "id' m2 = uuid4_hex (urandom w1 (drawn w1))"
    by (simp add: Message_construct_no_id)
  with w1 have b: "id' m2 = uuid4_hex (urandom w (Suc (drawn w)))" by simp
  show ?thesis
    by (simp only: a b uuid4_hex_inj uuid4_kept)
qed

theorem successive_ids_distinct_witness:
  "Message_construct counting_world [] =
     (Inr \<lparr>id' = ''00000000000040008000000000000000'', type = USER, content = ''''\<rparr>,
      counting_world\<lparr>drawn := 1\<rparr>)
   \<and> Message_construct (counting_world\<lparr>drawn := 1\<rparr>) [] =
     (Inr \<lparr>id' = ''00000000000040008000000000000001'', type = USER, content = ''''\<rparr>,
      counting_world\<lparr>drawn := 2\<rparr>)
   \<and> ''00000000000040008000000000000000'' \<noteq> ''00000000000040008000000000000001''
   \<and> kept_bits (urandom counting_world 0) \<noteq> kept_bits (urandom counting_world 1)"
proof -
  have c1: "Message_construct counting_world [] =
     (Inr \<lparr>id' = ''00000000000040008000000000000000'', type = USER, content = ''''\<rparr>,
      counting_world\<lparr>drawn := 1\<rparr>)"
    by (simp add: Message_construct_def id_field_def fresh_id_def get_field_def counting_world_def
        uuid4_hex_zero)
  have c2: "Message_construct (counting_world\<lparr>drawn := 1\<rparr>) [] =
     (Inr \<lparr>id' = ''00000000000040008000000000000001'', type = USER, content = ''''\<rparr>,
      counting_world\<lparr>drawn := 2\<rparr>)"
    by (simp add: Message_construct_def id_field_def fresh_id_def get_field_def counting_world_def
        uuid4_hex_one)
  have d: "drawn counting_world = 0" by (simp add: counting_world_def)
  from successive_ids_distinct [of "[]" "[]", OF _ _ c1 c2] d c1 c2
  show ?thesis by simp
qed

subsection \<open>Errors of the construction of a \<^verbatim>\<open>Message\<close>\<close>











subsection \<open>Serialisation and deserialisation\<close>

lemma length_dec_digits [simp]: "length (dec_digits k n) = k"
  by (induction k arbitrary: n) simp_all







lemma validate_MessageType_value: "validate_MessageType (PStr (MessageType_value t)) = Inr t"
  by (cases t) (simp_all add: lookup_MessageType_def)











end
